theory Spec2Isabelle
  imports Main "HOL-Library.Word" "HOL-Library.Signed_Division"
begin

section \<open>Bytes, strings and the encodings used by the token code\<close>

text \<open>
  A Go \<open>[]byte\<close> is a list of 8-bit words; a Go \<open>string\<close> is an Isabelle \<open>string\<close>
  (a list of 8-bit characters).
\<close>

type_synonym byte = "8 word"

definition bytes_of_string :: "string \<Rightarrow> byte list" where
  "bytes_of_string s = map (\<lambda>c. word_of_nat (of_char c)) s"

text \<open>
  \<open>base64.RawURLEncoding\<close>: the URL-safe alphabet of RFC 4648, no padding character.
\<close>

definition encodeURL :: string where
  "encodeURL = ''ABCDEFGHIJKLMNOPQRSTUVWXYZabcdefghijklmnopqrstuvwxyz0123456789-_''"

definition enc6 :: "nat \<Rightarrow> char" where
  "enc6 v = encodeURL ! (v mod 64)"

text \<open>
  \<open>EncodeToString\<close> of the raw URL encoding. Full groups of three bytes give four
  characters of the 24-bit value \<open>val\<close>; a remainder of two bytes gives three
  characters, a remainder of one byte gives two, and nothing is padded.
\<close>

fun rawurl_encode :: "byte list \<Rightarrow> string" where
  "rawurl_encode [] = []"
| "rawurl_encode [a] =
     (let val = unat a * 65536
      in [enc6 (val div 262144), enc6 (val div 4096)])"
| "rawurl_encode [a, b] =
     (let val = unat a * 65536 + unat b * 256
      in [enc6 (val div 262144), enc6 (val div 4096), enc6 (val div 64)])"
| "rawurl_encode (a # b # c # rest) =
     (let val = unat a * 65536 + unat b * 256 + unat c
      in [enc6 (val div 262144), enc6 (val div 4096), enc6 (val div 64), enc6 val]
         @ rawurl_encode rest)"

text \<open>\<open>fmt.Sprintf("%x", b)\<close> on a byte slice or array: two lowercase hex digits per byte.\<close>

definition hexdigits :: string where
  "hexdigits = ''0123456789abcdef''"

definition hex_of_bytes :: "byte list \<Rightarrow> string" where
  "hex_of_bytes bs = concat (map (\<lambda>b. [hexdigits ! (unat b div 16), hexdigits ! (unat b mod 16)]) bs)"

text \<open>\<open>strings.Split(s, ".")\<close>: the segments of \<open>s\<close> between the dots.\<close>

fun split_dot :: "string \<Rightarrow> string list" where
  "split_dot [] = [[]]"
| "split_dot (c # cs) =
     (if c = CHR ''.'' then [] # split_dot cs
      else (case split_dot cs of [] \<Rightarrow> [[c]] | seg # segs \<Rightarrow> (c # seg) # segs))"

section \<open>Time\<close>

text \<open>
  A \<open>time.Time\<close> as the seconds since the Unix epoch and the nanoseconds within the
  second (\<open>0 \<le> nsec < 10^9\<close>); a \<open>time.Duration\<close> is a number of nanoseconds.
  \<open>Add\<close> follows the library: Go's \<open>/\<close> and \<open>%\<close> truncate towards zero.
\<close>

record go_time =
  sec :: int
  nsec :: int

definition time_Add :: "go_time \<Rightarrow> int \<Rightarrow> go_time" where
  "time_Add t d =
     (let dsec = d sdiv 1000000000;
          ns = nsec t + d smod 1000000000
      in if ns \<ge> 1000000000 then \<lparr>sec = sec t + (dsec + 1), nsec = ns - 1000000000\<rparr>
         else if ns < 0 then \<lparr>sec = sec t + (dsec - 1), nsec = ns + 1000000000\<rparr>
         else \<lparr>sec = sec t + dsec, nsec = ns\<rparr>)"

definition time_Unix :: "go_time \<Rightarrow> int" where
  "time_Unix t = sec t"

section \<open>Tokens (jwt.go)\<close>

definition es256 :: string where "es256 = ''ES256''"
definition rs256 :: string where "rs256 = ''RS256''"

record tokenHeader =
  Alg :: string
  Typ :: string

record tokenPayload =
  BodyHash :: string
  Exp :: int
  Iat :: int
  Nonce :: string
  Sub :: string
  Uri :: string
  Kid :: string

record token =
  Header :: tokenHeader
  Payload :: tokenPayload
  shouldCleanKey :: bool

text \<open>
  \<open>newToken\<close>. The three things it takes from outside are arguments: the result of
  \<open>rand.Read\<close> on the 20-byte nonce buffer (an error message or the bytes read), the
  clock reading \<open>time.Now().UTC()\<close>, and SHA-256.
\<close>

definition newToken ::
  "(string + byte list) \<Rightarrow> go_time \<Rightarrow> (byte list \<Rightarrow> byte list) \<Rightarrow>
   string \<Rightarrow> string \<Rightarrow> byte list \<Rightarrow> int \<Rightarrow> bool \<Rightarrow> string + token" where
  "newToken rand_Read now sha256_Sum256 keyID uri body ttl clean =
     (case rand_Read of
        Inl err \<Rightarrow> Inl (''wallet: newToken: failed to read random bytes. err='' @ err)
      | Inr nonceBuffer \<Rightarrow>
          (let iat = now;
               bodyHash = sha256_Sum256 body
           in Inr \<lparr>Header = \<lparr>Alg = '''', Typ = ''JWT''\<rparr>,
                   Payload = \<lparr>BodyHash = hex_of_bytes bodyHash,
                              Exp = time_Unix (time_Add iat ttl),
                              Iat = time_Unix iat,
                              Nonce = hex_of_bytes nonceBuffer,
                              Sub = ''wallet'',
                              Uri = uri,
                              Kid = keyID\<rparr>,
                   shouldCleanKey = clean\<rparr>))"

subsection \<open>Private keys\<close>

text \<open>
  The key structures of \<open>crypto/ecdsa\<close> and \<open>crypto/rsa\<close> with their big-integer
  fields. \<open>x509.ParsePKCS8PrivateKey\<close> may also return a key that is neither (Ed25519,
  ECDH), kept as its bytes.
\<close>

record ec_key =
  ecD :: int
  ecX :: int
  ecY :: int

record rsa_key =
  rsaN :: int
  rsaE :: int
  rsaD :: int
  rsaPrimes :: "int list"
  rsaDp :: int
  rsaDq :: int
  rsaQinv :: int

datatype private_key = ECDSAKey ec_key | RSAKey rsa_key | OtherKey "byte list"

text \<open>
  The library functions \<open>signAndFormat\<close> calls. A parser returns \<open>None\<close> where the
  library returns an error; an encoder or signer returns \<open>Inl\<close> of the error's text.
  The randomness of signing is inside the signer.
\<close>

record crypto_env =
  pem_Decode :: "byte list \<Rightarrow> byte list option"
  x509_ParseECPrivateKey :: "byte list \<Rightarrow> ec_key option"
  x509_ParsePKCS1PrivateKey :: "byte list \<Rightarrow> rsa_key option"
  x509_ParsePKCS8PrivateKey :: "byte list \<Rightarrow> private_key option"
  json_Encode_payload :: "tokenPayload \<Rightarrow> string + byte list"
  json_Encode_header :: "tokenHeader \<Rightarrow> string + byte list"
  sha256_Sum :: "byte list \<Rightarrow> byte list"
  ecdsa_SignASN1 :: "ec_key \<Rightarrow> byte list \<Rightarrow> string + byte list"
  rsa_SignPKCS1v15 :: "rsa_key \<Rightarrow> byte list \<Rightarrow> string + byte list"

text \<open>
  What is in memory when \<open>signAndFormat\<close> has returned: the token (its header is
  written through the pointer), the caller's PEM buffer, the buffer of the decoded
  block (a buffer of its own, allocated by \<open>pem.Decode\<close>) and the parsed key object.
\<close>

record sign_memory =
  tok :: token
  pemBuf :: "byte list"
  blockBytes :: "byte list option"
  parsedKey :: "private_key option"

definition zeroed :: "byte list \<Rightarrow> byte list" where
  "zeroed bs = map (\<lambda>_. 0) bs"

text \<open>The first deferred function: the PEM buffer is cleared only for a transient key.\<close>

definition clean_pem :: "token \<Rightarrow> byte list \<Rightarrow> byte list" where
  "clean_pem t privateKeyPEM = (if \<not> shouldCleanKey t then privateKeyPEM else zeroed privateKeyPEM)"

text \<open>The three parsing attempts, in the order of the nested \<open>if err != nil\<close>.\<close>

definition parse_key :: "crypto_env \<Rightarrow> byte list \<Rightarrow> private_key option" where
  "parse_key env der =
     (case x509_ParseECPrivateKey env der of
        Some k \<Rightarrow> Some (ECDSAKey k)
      | None \<Rightarrow>
          (case x509_ParsePKCS1PrivateKey env der of
             Some k \<Rightarrow> Some (RSAKey k)
           | None \<Rightarrow> x509_ParsePKCS8PrivateKey env der))"

text \<open>
  From the encoding of the payload to the return: the result, the token and the key
  object as they are left.
\<close>

definition sign_with_key ::
  "crypto_env \<Rightarrow> token \<Rightarrow> private_key \<Rightarrow> (string + string) \<times> token \<times> private_key" where
  "sign_with_key env t privateKeyAny =
     (case json_Encode_payload env (Payload t) of
        Inl err \<Rightarrow> (Inl (''wallet: signAndFormat: '' @ err), t, privateKeyAny)
      | Inr jsonBuffer \<Rightarrow>
          (let encodedPayload = rawurl_encode jsonBuffer
           in case privateKeyAny of
                ECDSAKey key \<Rightarrow>
                  (let t1 = t\<lparr>Header := (Header t)\<lparr>Alg := es256\<rparr>\<rparr>
                   in case json_Encode_header env (Header t1) of
                        Inl err \<Rightarrow> (Inl (''wallet: signAndFormat: '' @ err), t1, privateKeyAny)
                      | Inr hdr \<Rightarrow>
                          (let signingString = rawurl_encode hdr @ ''.'' @ encodedPayload;
                               hashed = sha256_Sum env (bytes_of_string signingString)
                           in case ecdsa_SignASN1 env key hashed of
                                Inl err \<Rightarrow>
                                  (Inl (''wallet: signAndFormat: failed to sign with EC key. err='' @ err),
                                   t1, privateKeyAny)
                              | Inr signatureB \<Rightarrow>
                                  (Inr (signingString @ ''.'' @ rawurl_encode signatureB), t1,
                                   ECDSAKey (key\<lparr>ecD := 0, ecX := 0, ecY := 0\<rparr>))))
              | RSAKey key \<Rightarrow>
                  (let t1 = t\<lparr>Header := (Header t)\<lparr>Alg := rs256\<rparr>\<rparr>
                   in case json_Encode_header env (Header t1) of
                        Inl err \<Rightarrow> (Inl (''wallet: signAndFormat: '' @ err), t1, privateKeyAny)
                      | Inr hdr \<Rightarrow>
                          (let signingString = rawurl_encode hdr @ ''.'' @ encodedPayload;
                               hashed = sha256_Sum env (bytes_of_string signingString)
                           in case rsa_SignPKCS1v15 env key hashed of
                                Inl err \<Rightarrow>
                                  (Inl (''wallet: signAndFormat: failed to sign with RSA key. err='' @ err),
                                   t1, privateKeyAny)
                              | Inr signatureB \<Rightarrow>
                                  (Inr (signingString @ ''.'' @ rawurl_encode signatureB), t1,
                                   RSAKey (key\<lparr>rsaD := 0, rsaN := 0\<rparr>))))
              | OtherKey _ \<Rightarrow>
                  (Inl ''wallet: signAndFormat: unable to cast private key type. Valid key would either be *[rsa.PrivateKey] or *[ecdsa.PrivateKey].'',
                   t, privateKeyAny)))"

text \<open>
  \<open>signAndFormat\<close>, with its two deferred functions applied on every return: the
  second one (registered once the block is decoded) clears the block's bytes, the
  first one clears the PEM buffer when \<open>shouldCleanKey\<close> is set.
\<close>

definition signAndFormat ::
  "crypto_env \<Rightarrow> token \<Rightarrow> byte list \<Rightarrow> (string + string) \<times> sign_memory" where
  "signAndFormat env t privateKeyPEM =
     (case pem_Decode env privateKeyPEM of
        None \<Rightarrow>
          (Inl ''wallet: signAndFormat: private key must be in PEM format.'',
           \<lparr>tok = t, pemBuf = clean_pem t privateKeyPEM, blockBytes = None, parsedKey = None\<rparr>)
      | Some der \<Rightarrow>
          (case parse_key env der of
             None \<Rightarrow>
               (Inl ''wallet: signAndFormat: unable to deduce private key type. Valid key would either be EC or RSA.'',
                \<lparr>tok = t, pemBuf = clean_pem t privateKeyPEM, blockBytes = Some (zeroed der),
                 parsedKey = None\<rparr>)
           | Some privateKeyAny \<Rightarrow>
               (case sign_with_key env t privateKeyAny of
                  (res, t', key') \<Rightarrow>
                    (res, \<lparr>tok = t', pemBuf = clean_pem t' privateKeyPEM,
                           blockBytes = Some (zeroed der), parsedKey = Some key'\<rparr>))))"

section \<open>The client (wallet.go)\<close>

text \<open>
  Durations are nanoseconds. A nil pointer is \<open>None\<close>. The credentials loader is a
  function without arguments that returns an error text or the key identifier and
  the PEM bytes.
\<close>

record http_client =
  Timeout :: int

record credentials =
  keyID :: string
  privateKeyPEM :: "byte list"

record options =
  CredentialsLoaderFunc :: "(unit \<Rightarrow> string + string \<times> byte list) option"
  HTTPClient :: "http_client option"
  MaxReadRetry :: int
  RetryInterval :: int
  Debug :: bool

record client =
  client_options :: options
  client_credentials :: "credentials option"

definition second :: int where "second = 1000000000"
definition millisecond :: int where "millisecond = 1000000"

definition defaultOptions :: options where
  "defaultOptions =
     \<lparr>CredentialsLoaderFunc = None,
      HTTPClient = Some \<lparr>Timeout = 10 * second\<rparr>,
      MaxReadRetry = 5,
      RetryInterval = 50 * millisecond,
      Debug = False\<rparr>"

text \<open>
  \<open>New(opts ...*Options)\<close>. Only \<open>opts[0]\<close> is read; a nil \<open>opts[0]\<close> is
  dereferenced, which panics (\<open>Inl\<close>).
\<close>

definition New :: "options option list \<Rightarrow> string + client" where
  "New opts =
     (case opts of
        [] \<Rightarrow> Inr \<lparr>client_options = defaultOptions, client_credentials = None\<rparr>
      | None # _ \<Rightarrow> Inl ''panic: runtime error: invalid memory address or nil pointer dereference''
      | Some o0 # _ \<Rightarrow>
          (let o1 = (if HTTPClient o0 = None then o0\<lparr>HTTPClient := HTTPClient defaultOptions\<rparr> else o0);
               o2 = (case HTTPClient o1 of
                       None \<Rightarrow> o1
                     | Some h \<Rightarrow>
                         if Timeout h \<le> 0 then o1\<lparr>HTTPClient := Some (h\<lparr>Timeout := 10 * second\<rparr>)\<rparr>
                         else o1);
               o3 = (if MaxReadRetry o2 \<le> 0 then o2\<lparr>MaxReadRetry := MaxReadRetry defaultOptions\<rparr> else o2);
               o4 = (if RetryInterval o3 \<le> 0 then o3\<lparr>RetryInterval := RetryInterval defaultOptions\<rparr> else o3)
           in Inr \<lparr>client_options = o4, client_credentials = None\<rparr>))"

text \<open>\<open>SetCredentials\<close>: the client afterwards and the lines written to the log.\<close>

definition SetCredentials :: "client \<Rightarrow> string \<Rightarrow> byte list \<Rightarrow> client \<times> string list" where
  "SetCredentials c kid pem =
     (if CredentialsLoaderFunc (client_options c) \<noteq> None then
        (if Debug (client_options c)
         then (c, [''INFO: ignoring SetCredentials call as CredentialsLoaderFunc was set to the client.''])
         else (c, []))
      else (c\<lparr>client_credentials := Some \<lparr>keyID = kid, privateKeyPEM = pem\<rparr>\<rparr>, []))"

section \<open>Credential resolution and dispatch\<close>

text \<open>
  Modelled from the spec: the credential resolver (section 4.3); its source file is
  not among the sources. With a loader configured the loader is invoked and its
  result is used as a transient key; otherwise the stored credentials are used as a
  persistent key; with neither the call fails. The result is the key identifier, the
  PEM bytes and whether the key is transient.
\<close>

definition resolve :: "client \<Rightarrow> string + string \<times> byte list \<times> bool" where
  "resolve c =
     (case CredentialsLoaderFunc (client_options c) of
        Some loader \<Rightarrow>
          (case loader () of
             Inl err \<Rightarrow> Inl err
           | Inr (kid, pem) \<Rightarrow> Inr (kid, pem, True))
      | None \<Rightarrow>
          (case client_credentials c of
             None \<Rightarrow> Inl ''wallet: credentials are not set''
           | Some cr \<Rightarrow> Inr (keyID cr, privateKeyPEM cr, False)))"

text \<open>
  Modelled from the spec: the per-attempt token of the control flow of section 2
  (resolve the credentials, build the token for the body and the path, sign it);
  the dispatching source file is not among the sources. The building and the signing
  are \<open>newToken\<close> and \<open>signAndFormat\<close> above.
\<close>

definition build_token ::
  "crypto_env \<Rightarrow> (string + byte list) \<Rightarrow> go_time \<Rightarrow> client \<Rightarrow> string \<Rightarrow> byte list \<Rightarrow> int \<Rightarrow>
   string + string" where
  "build_token env rand_Read now c uri body ttl =
     (case resolve c of
        Inl err \<Rightarrow> Inl err
      | Inr (kid, pem, transient) \<Rightarrow>
          (case newToken rand_Read now (sha256_Sum env) kid uri body ttl transient of
             Inl err \<Rightarrow> Inl err
           | Inr t \<Rightarrow> fst (signAndFormat env t pem)))"

text \<open>
  What the transport answers to one request: no response at all, or a response with
  its status code, the seconds of its \<open>Retry-After\<close> header and its body.
\<close>

datatype response = TransportFailure | Response nat nat string

datatype call_error =
    TokenError string
  | TransportError
  | ServerError nat
  | ClientError nat
  | UnexpectedStatus nat

text \<open>
  The state of one call: the attempt counter of the retry budget, the requests sent,
  the time slept and the tokens sent, oldest first.
\<close>

record dispatch_state =
  attempt :: nat
  requests :: nat
  slept :: int
  sent :: "string list"

definition initial_state :: dispatch_state where
  "initial_state = \<lparr>attempt = 1, requests = 0, slept = 0, sent = []\<rparr>"

text \<open>
  Modelled from the spec: the query state machine of section 4.4; the dispatching
  source file is not among the sources. The transport is the list of its answers
  to the successive requests, and \<open>mint n\<close> is the token built for request
  \<open>n\<close> (or the error of building it). On a transport failure or a 5xx status the
  call retries after \<open>retryInterval\<close> while the attempts so far are at most
  \<open>maxReadRetry\<close>, and the attempt count increments; on 429 it sleeps for the
  \<open>Retry-After\<close> seconds and retries, leaving the attempt count alone; 2xx is
  success; any other 4xx is terminal. A status the spec does not name is terminal.
  \<open>None\<close>: the transport has not answered the last request.
\<close>

fun query_loop ::
  "int \<Rightarrow> int \<Rightarrow> (nat \<Rightarrow> string + string) \<Rightarrow> dispatch_state \<Rightarrow> response list \<Rightarrow>
   ((call_error + string) \<times> dispatch_state) option" where
  "query_loop maxReadRetry retryInterval mint st [] =
     (case mint (requests st) of
        Inl err \<Rightarrow> Some (Inl (TokenError err), st)
      | Inr tk \<Rightarrow> None)"
| "query_loop maxReadRetry retryInterval mint st (r # rs) =
     (case mint (requests st) of
        Inl err \<Rightarrow> Some (Inl (TokenError err), st)
      | Inr tk \<Rightarrow>
          (let st1 = st\<lparr>requests := requests st + 1, sent := sent st @ [tk]\<rparr>
           in case r of
                TransportFailure \<Rightarrow>
                  if int (attempt st1) \<le> maxReadRetry
                  then query_loop maxReadRetry retryInterval mint
                         (st1\<lparr>attempt := attempt st1 + 1, slept := slept st1 + retryInterval\<rparr>) rs
                  else Some (Inl TransportError, st1)
              | Response code retryAfter body \<Rightarrow>
                  if 500 \<le> code \<and> code \<le> 599 then
                    (if int (attempt st1) \<le> maxReadRetry
                     then query_loop maxReadRetry retryInterval mint
                            (st1\<lparr>attempt := attempt st1 + 1, slept := slept st1 + retryInterval\<rparr>) rs
                     else Some (Inl (ServerError code), st1))
                  else if code = 429 then
                    query_loop maxReadRetry retryInterval mint
                      (st1\<lparr>slept := slept st1 + int retryAfter * second\<rparr>) rs
                  else if 200 \<le> code \<and> code \<le> 299 then Some (Inr body, st1)
                  else if 400 \<le> code \<and> code \<le> 499 then Some (Inl (ClientError code), st1)
                  else Some (Inl (UnexpectedStatus code), st1)))"

text \<open>
  Modelled from the spec: the command policy of section 4.4; the dispatching source
  file is not among the sources. The same machinery, but a transport failure or a
  5xx status ends the call at once; 429 is handled as for queries.
\<close>

fun command_loop ::
  "(nat \<Rightarrow> string + string) \<Rightarrow> dispatch_state \<Rightarrow> response list \<Rightarrow>
   ((call_error + string) \<times> dispatch_state) option" where
  "command_loop mint st [] =
     (case mint (requests st) of
        Inl err \<Rightarrow> Some (Inl (TokenError err), st)
      | Inr tk \<Rightarrow> None)"
| "command_loop mint st (r # rs) =
     (case mint (requests st) of
        Inl err \<Rightarrow> Some (Inl (TokenError err), st)
      | Inr tk \<Rightarrow>
          (let st1 = st\<lparr>requests := requests st + 1, sent := sent st @ [tk]\<rparr>
           in case r of
                TransportFailure \<Rightarrow> Some (Inl TransportError, st1)
              | Response code retryAfter body \<Rightarrow>
                  if 500 \<le> code \<and> code \<le> 599 then Some (Inl (ServerError code), st1)
                  else if code = 429 then
                    command_loop mint (st1\<lparr>slept := slept st1 + int retryAfter * second\<rparr>) rs
                  else if 200 \<le> code \<and> code \<le> 299 then Some (Inr body, st1)
                  else if 400 \<le> code \<and> code \<le> 499 then Some (Inl (ClientError code), st1)
                  else Some (Inl (UnexpectedStatus code), st1)))"

definition query ::
  "client \<Rightarrow> (nat \<Rightarrow> string + string) \<Rightarrow> response list \<Rightarrow>
   ((call_error + string) \<times> dispatch_state) option" where
  "query c mint transport =
     query_loop (MaxReadRetry (client_options c)) (RetryInterval (client_options c)) mint
       initial_state transport"

definition command ::
  "client \<Rightarrow> (nat \<Rightarrow> string + string) \<Rightarrow> response list \<Rightarrow>
   ((call_error + string) \<times> dispatch_state) option" where
  "command c mint transport = command_loop mint initial_state transport"

section \<open>Properties read off the memory\<close>




section \<open>A small environment for concrete runs\<close>

text \<open>
  Stand-ins for the libraries, small enough to run by hand. A buffer that starts
  with a dash is a PEM block whose body is the rest. The body's first byte is the
  structure: 1 an EC key \<open>[1, d, x, y]\<close>, 2 a PKCS#1 RSA key
  \<open>[2, n1, n0, e, d, p, q, dp, dq, qinv]\<close> with the modulus in two bytes, 3 a
  PKCS#8 wrapping of either or of some other key. The RSA signer refuses a modulus
  below \<open>2^8\<close>, as the library refuses a modulus too short for the digest.
\<close>

definition demo_pem_Decode :: "byte list \<Rightarrow> byte list option" where
  "demo_pem_Decode p = (case p of [] \<Rightarrow> None | tag # der \<Rightarrow> if tag = 45 then Some der else None)"

definition demo_ParseEC :: "byte list \<Rightarrow> ec_key option" where
  "demo_ParseEC der =
     (case der of
        [k, d, x, y] \<Rightarrow> if k = 1 then Some \<lparr>ecD = uint d, ecX = uint x, ecY = uint y\<rparr> else None
      | _ \<Rightarrow> None)"

definition demo_ParsePKCS1 :: "byte list \<Rightarrow> rsa_key option" where
  "demo_ParsePKCS1 der =
     (case der of
        [k, n1, n0, e, d, p, q, dp, dq, qinv] \<Rightarrow>
          if k = 2
          then Some \<lparr>rsaN = uint n1 * 256 + uint n0, rsaE = uint e, rsaD = uint d,
                     rsaPrimes = [uint p, uint q], rsaDp = uint dp, rsaDq = uint dq,
                     rsaQinv = uint qinv\<rparr>
          else None
      | _ \<Rightarrow> None)"

definition demo_ParsePKCS8 :: "byte list \<Rightarrow> private_key option" where
  "demo_ParsePKCS8 der =
     (case der of
        [] \<Rightarrow> None
      | k # inner \<Rightarrow>
          if k = 3 then
            (case demo_ParseEC inner of
               Some ek \<Rightarrow> Some (ECDSAKey ek)
             | None \<Rightarrow>
                 (case demo_ParsePKCS1 inner of
                    Some rk \<Rightarrow> Some (RSAKey rk)
                  | None \<Rightarrow> Some (OtherKey inner)))
          else None)"

function decimal :: "int \<Rightarrow> string" where
  "decimal n =
     (if n < 10 then [''0123456789'' ! nat n]
      else decimal (n div 10) @ [''0123456789'' ! nat (n mod 10)])"
  by pat_completeness auto
termination
  by (relation "measure nat") auto

definition json_int :: "int \<Rightarrow> string" where
  "json_int i = (if i < 0 then CHR ''-'' # decimal (- i) else decimal i)"

text \<open>A JSON string literal of a text that needs no escaping.\<close>

definition json_str :: "string \<Rightarrow> string" where
  "json_str s = [CHR 0x22] @ s @ [CHR 0x22]"

definition demo_json_header :: "tokenHeader \<Rightarrow> string + byte list" where
  "demo_json_header h =
     Inr (bytes_of_string
       (''{'' @ json_str ''alg'' @ '':'' @ json_str (Alg h) @ '','' @
        json_str ''typ'' @ '':'' @ json_str (Typ h) @ ''}'' @ [CHR 0x0A]))"

definition demo_json_payload :: "tokenPayload \<Rightarrow> string + byte list" where
  "demo_json_payload p =
     Inr (bytes_of_string
       (''{'' @ json_str ''bodyHash'' @ '':'' @ json_str (BodyHash p) @ '','' @
        json_str ''exp'' @ '':'' @ json_int (Exp p) @ '','' @
        json_str ''iat'' @ '':'' @ json_int (Iat p) @ '','' @
        json_str ''nonce'' @ '':'' @ json_str (Nonce p) @ '','' @
        json_str ''sub'' @ '':'' @ json_str (Sub p) @ '','' @
        json_str ''uri'' @ '':'' @ json_str (Uri p) @ '','' @
        json_str ''kid'' @ '':'' @ json_str (Kid p) @ ''}'' @ [CHR 0x0A]))"

text \<open>A two-byte checksum in the place of SHA-256.\<close>

definition demo_sum :: "byte list \<Rightarrow> byte list" where
  "demo_sum bs = [word_of_nat (length bs), foldr (+) bs 0]"

definition demo_ecdsa_Sign :: "ec_key \<Rightarrow> byte list \<Rightarrow> string + byte list" where
  "demo_ecdsa_Sign k hashed = Inr (48 # word_of_int (ecD k) # hashed)"

definition demo_rsa_Sign :: "rsa_key \<Rightarrow> byte list \<Rightarrow> string + byte list" where
  "demo_rsa_Sign k hashed =
     (if rsaN k < 256 then Inl ''crypto/rsa: message too long for RSA key size''
      else Inr (word_of_int (rsaD k) # hashed))"

definition demo_env :: crypto_env where
  "demo_env =
     \<lparr>pem_Decode = demo_pem_Decode,
      x509_ParseECPrivateKey = demo_ParseEC,
      x509_ParsePKCS1PrivateKey = demo_ParsePKCS1,
      x509_ParsePKCS8PrivateKey = demo_ParsePKCS8,
      json_Encode_payload = demo_json_payload,
      json_Encode_header = demo_json_header,
      sha256_Sum = demo_sum,
      ecdsa_SignASN1 = demo_ecdsa_Sign,
      rsa_SignPKCS1v15 = demo_rsa_Sign\<rparr>"

definition demo_payload :: tokenPayload where
  "demo_payload =
     \<lparr>BodyHash = ''0b'', Exp = 1700000060, Iat = 1700000000, Nonce = ''a1'',
      Sub = ''wallet'', Uri = ''/query'', Kid = ''key-1''\<rparr>"

definition demo_token :: "bool \<Rightarrow> token" where
  "demo_token clean =
     \<lparr>Header = \<lparr>Alg = [], Typ = ''JWT''\<rparr>, Payload = demo_payload, shouldCleanKey = clean\<rparr>"

definition demo_ec_pem :: "byte list" where
  "demo_ec_pem = [45, 1, 7, 3, 5]"

definition demo_rsa_pem :: "byte list" where
  "demo_rsa_pem = [45, 2, 1, 247, 3, 7, 13, 19, 1, 7, 11]"

definition demo_small_rsa_pem :: "byte list" where
  "demo_small_rsa_pem = [45, 2, 0, 33, 3, 7, 3, 11, 1, 7, 2]"

definition demo_other_pem :: "byte list" where
  "demo_other_pem = [45, 3, 9, 9]"

section \<open>Reading the transport's answers\<close>

text \<open>A transport failure or a 5xx status; a 429 status; the error of a failure.\<close>

fun server_failure :: "response \<Rightarrow> bool" where
  "server_failure TransportFailure = True"
| "server_failure (Response code retryAfter body) = (500 \<le> code \<and> code \<le> 599)"

fun rate_limited :: "response \<Rightarrow> bool" where
  "rate_limited TransportFailure = False"
| "rate_limited (Response code retryAfter body) = (code = 429)"

fun failure_error :: "response \<Rightarrow> call_error" where
  "failure_error TransportFailure = TransportError"
| "failure_error (Response code retryAfter body) = ServerError code"

text \<open>The wait before the retry that follows an answer: \<open>Retry-After\<close> seconds for 429.\<close>

fun wait_after :: "int \<Rightarrow> response \<Rightarrow> int" where
  "wait_after retryInterval TransportFailure = retryInterval"
| "wait_after retryInterval (Response code retryAfter body) =
     (if code = 429 then int retryAfter * second else retryInterval)"

text \<open>The state after the answers \<open>pre\<close> have each been followed by a retry.\<close>

definition after_retries ::
  "int \<Rightarrow> (nat \<Rightarrow> string) \<Rightarrow> dispatch_state \<Rightarrow> response list \<Rightarrow> dispatch_state" where
  "after_retries retryInterval tks st pre =
     \<lparr>attempt = attempt st + length (filter server_failure pre),
      requests = requests st + length pre,
      slept = slept st + sum_list (map (wait_after retryInterval) pre),
      sent = sent st @ map tks [requests st ..< requests st + length pre]\<rparr>"

text \<open>Clients and tokens for concrete runs.\<close>

definition demo_options :: options where
  "demo_options =
     \<lparr>CredentialsLoaderFunc = None, HTTPClient = None, MaxReadRetry = 5,
      RetryInterval = 1 * millisecond, Debug = False\<rparr>"

definition demo_loader :: "unit \<Rightarrow> string + string \<times> byte list" where
  "demo_loader u = Inr (''ec-key-id'', demo_ec_pem)"

definition demo_tokens :: "nat \<Rightarrow> string" where
  "demo_tokens n = ''token-'' @ decimal (int n)"

definition demo_now :: go_time where
  "demo_now = \<lparr>sec = 1700000000, nsec = 600000000\<rparr>"

text \<open>The tokens the small environment produces for the EC and the RSA key.\<close>

definition demo_es256_jwt :: string where
  "demo_es256_jwt = ''eyJhbGciOiJFUzI1NiIsInR5cCI6IkpXVCJ9Cg.eyJib2R5SGFzaCI6IjBiIiwiZXhwIjoxNzAwMDAwMDYwLCJpYXQiOjE3MDAwMDAwMDAsIm5vbmNlIjoiYTEiLCJzdWIiOiJ3YWxsZXQiLCJ1cmkiOiIvcXVlcnkiLCJraWQiOiJrZXktMSJ9Cg.MAe5qA''"

definition demo_rs256_jwt :: string where
  "demo_rs256_jwt = ''eyJhbGciOiJSUzI1NiIsInR5cCI6IkpXVCJ9Cg.eyJib2R5SGFzaCI6IjBiIiwiZXhwIjoxNzAwMDAwMDYwLCJpYXQiOjE3MDAwMDAwMDAsIm5vbmNlIjoiYTEiLCJzdWIiOiJ3YWxsZXQiLCJ1cmkiOiIvcXVlcnkiLCJraWQiOiJrZXktMSJ9Cg.B7m1''"

section \<open>The token format in the spec's words\<close>

text \<open>
  The spec's steps 3 to 7 for a key of known type, to compare \<open>signAndFormat\<close>
  with: the header with its algorithm and the payload are serialized and encoded,
  joined by a dot, digested and signed, and the encoded signature is appended.
  \<open>None\<close> where a step fails.
\<close>

definition spec_compact_token ::
  "crypto_env \<Rightarrow> token \<Rightarrow> string \<Rightarrow> (byte list \<Rightarrow> string + byte list) \<Rightarrow> string option" where
  "spec_compact_token env t alg sign =
     (case json_Encode_header env ((Header t)\<lparr>Alg := alg\<rparr>) of
        Inl _ \<Rightarrow> None
      | Inr hdr \<Rightarrow>
          (case json_Encode_payload env (Payload t) of
             Inl _ \<Rightarrow> None
           | Inr pl \<Rightarrow>
               (case sign (sha256_Sum env (bytes_of_string (rawurl_encode hdr @ ''.'' @ rawurl_encode pl))) of
                  Inl _ \<Rightarrow> None
                | Inr sg \<Rightarrow>
                    Some (rawurl_encode hdr @ ''.'' @ rawurl_encode pl @ ''.'' @ rawurl_encode sg))))"

definition spec_es256_token :: "crypto_env \<Rightarrow> token \<Rightarrow> ec_key \<Rightarrow> string option" where
  "spec_es256_token env t ek = spec_compact_token env t ''ES256'' (ecdsa_SignASN1 env ek)"

definition spec_rs256_token :: "crypto_env \<Rightarrow> token \<Rightarrow> rsa_key \<Rightarrow> string option" where
  "spec_rs256_token env t rk = spec_compact_token env t ''RS256'' (rsa_SignPKCS1v15 env rk)"

section \<open>Facts about the encodings\<close>

lemma length_encodeURL: "length encodeURL = 64"
  by (simp add: encodeURL_def)

lemma enc6_in_alphabet: "enc6 v \<in> set encodeURL"
  unfolding enc6_def by (rule nth_mem) (simp add: length_encodeURL)

lemma rawurl_encode_alphabet: "set (rawurl_encode bs) \<subseteq> set encodeURL"
  by (induction bs rule: rawurl_encode.induct) (simp_all add: Let_def enc6_in_alphabet)

lemma dot_not_in_alphabet: "CHR ''.'' \<notin> set encodeURL"
  by (simp add: encodeURL_def)

lemma pad_not_in_alphabet: "CHR ''='' \<notin> set encodeURL"
  by (simp add: encodeURL_def)

lemma rawurl_encode_no_dot: "CHR ''.'' \<notin> set (rawurl_encode bs)"
  using rawurl_encode_alphabet dot_not_in_alphabet by blast

lemma rawurl_encode_no_pad: "CHR ''='' \<notin> set (rawurl_encode bs)"
  using rawurl_encode_alphabet pad_not_in_alphabet by blast

lemma rawurl_encode_length: "length (rawurl_encode bs) = (4 * length bs + 2) div 3"
  by (induction bs rule: rawurl_encode.induct) (simp_all add: Let_def)

lemma split_dot_no_dot: "CHR ''.'' \<notin> set s \<Longrightarrow> split_dot s = [s]"
  by (induction s) auto

lemma split_dot_append:
  "CHR ''.'' \<notin> set a \<Longrightarrow> split_dot (a @ CHR ''.'' # rest) = a # split_dot rest"
  by (induction a) auto

lemma split_dot_three:
  assumes "CHR ''.'' \<notin> set a" "CHR ''.'' \<notin> set b" "CHR ''.'' \<notin> set c"
  shows "split_dot (a @ ''.'' @ b @ ''.'' @ c) = [a, b, c]"
  using assms by (simp add: split_dot_append split_dot_no_dot)

section \<open>Facts about signing\<close>

lemma sign_with_key_shouldCleanKey:
  "sign_with_key env t k = (res, t', k') \<Longrightarrow> shouldCleanKey t' = shouldCleanKey t"
  by (auto simp: sign_with_key_def Let_def split: sum.splits private_key.splits)

lemma sign_with_key_Inr:
  assumes "sign_with_key env t k = (Inr s, t', k')"
  shows "\<exists>pl hdr sg.
           json_Encode_payload env (Payload t) = Inr pl \<and>
           json_Encode_header env (Header t') = Inr hdr \<and>
           s = rawurl_encode hdr @ ''.'' @ rawurl_encode pl @ ''.'' @ rawurl_encode sg \<and>
           ((\<exists>ek. k = ECDSAKey ek \<and> t' = t\<lparr>Header := (Header t)\<lparr>Alg := ''ES256''\<rparr>\<rparr> \<and>
                  ecdsa_SignASN1 env ek
                    (sha256_Sum env (bytes_of_string (rawurl_encode hdr @ ''.'' @ rawurl_encode pl))) = Inr sg \<and>
                  k' = ECDSAKey (ek\<lparr>ecD := 0, ecX := 0, ecY := 0\<rparr>)) \<or>
            (\<exists>rk. k = RSAKey rk \<and> t' = t\<lparr>Header := (Header t)\<lparr>Alg := ''RS256''\<rparr>\<rparr> \<and>
                  rsa_SignPKCS1v15 env rk
                    (sha256_Sum env (bytes_of_string (rawurl_encode hdr @ ''.'' @ rawurl_encode pl))) = Inr sg \<and>
                  k' = RSAKey (rk\<lparr>rsaD := 0, rsaN := 0\<rparr>)))"
  using assms
  by (auto simp: sign_with_key_def Let_def es256_def rs256_def split: sum.splits private_key.splits)

lemma signAndFormat_cases:
  "signAndFormat env t pem = (res, m) \<Longrightarrow>
     (pem_Decode env pem = None \<and>
      res = Inl ''wallet: signAndFormat: private key must be in PEM format.'' \<and>
      m = \<lparr>tok = t, pemBuf = clean_pem t pem, blockBytes = None, parsedKey = None\<rparr>) \<or>
     (\<exists>der. pem_Decode env pem = Some der \<and> parse_key env der = None \<and>
        res = Inl ''wallet: signAndFormat: unable to deduce private key type. Valid key would either be EC or RSA.'' \<and>
        m = \<lparr>tok = t, pemBuf = clean_pem t pem, blockBytes = Some (zeroed der), parsedKey = None\<rparr>) \<or>
     (\<exists>der k t' k'. pem_Decode env pem = Some der \<and> parse_key env der = Some k \<and>
        sign_with_key env t k = (res, t', k') \<and>
        m = \<lparr>tok = t', pemBuf = clean_pem t pem, blockBytes = Some (zeroed der), parsedKey = Some k'\<rparr>)"
  by (auto simp: signAndFormat_def clean_pem_def split: option.splits prod.splits
           dest: sign_with_key_shouldCleanKey)

lemma zeroed_replicate: "zeroed bs = replicate (length bs) 0"
  by (simp add: zeroed_def map_replicate_const)

section \<open>Concrete runs\<close>

lemmas demo_defs = demo_env_def demo_token_def demo_payload_def demo_rsa_pem_def demo_ec_pem_def
  demo_small_rsa_pem_def demo_other_pem_def demo_pem_Decode_def demo_ParseEC_def
  demo_ParsePKCS1_def demo_ParsePKCS8_def demo_json_header_def demo_json_payload_def
  json_str_def json_int_def demo_sum_def demo_ecdsa_Sign_def demo_rsa_Sign_def
  demo_es256_jwt_def demo_rs256_jwt_def

lemmas sign_defs = signAndFormat_def sign_with_key_def parse_key_def clean_pem_def zeroed_def
  es256_def rs256_def Let_def bytes_of_string_def enc6_def encodeURL_def

lemma demo_rsa_run:
  "signAndFormat demo_env (demo_token False) demo_rsa_pem =
     (Inr demo_rs256_jwt,
      \<lparr>tok = \<lparr>Header = \<lparr>Alg = ''RS256'', Typ = ''JWT''\<rparr>, Payload = demo_payload,
               shouldCleanKey = False\<rparr>,
       pemBuf = [45, 2, 1, 247, 3, 7, 13, 19, 1, 7, 11],
       blockBytes = Some [0, 0, 0, 0, 0, 0, 0, 0, 0, 0],
       parsedKey = Some (RSAKey \<lparr>rsaN = 0, rsaE = 3, rsaD = 0, rsaPrimes = [13, 19],
                                  rsaDp = 1, rsaDq = 7, rsaQinv = 11\<rparr>)\<rparr>)"
  by (simp add: demo_defs sign_defs)

lemma demo_ec_run:
  "signAndFormat demo_env (demo_token True) demo_ec_pem =
     (Inr demo_es256_jwt,
      \<lparr>tok = \<lparr>Header = \<lparr>Alg = ''ES256'', Typ = ''JWT''\<rparr>, Payload = demo_payload,
               shouldCleanKey = True\<rparr>,
       pemBuf = [0, 0, 0, 0, 0],
       blockBytes = Some [0, 0, 0, 0],
       parsedKey = Some (ECDSAKey \<lparr>ecD = 0, ecX = 0, ecY = 0\<rparr>)\<rparr>)"
  by (simp add: demo_defs sign_defs)


section \<open>The compact token\<close>

text \<open>
  C6. A token that \<open>signAndFormat\<close> returns is the encoded header, a dot, the
  encoded payload, a dot and the encoded signature: splitting it at the dots gives
  exactly these three segments. The header segment encodes the JSON of the header
  as signed, the payload segment the JSON of the payload, the third segment the
  bytes the signer returned for the digest of the first two. Every character is of
  the URL-safe alphabet or a dot, and none is the padding character.
\<close>

theorem signAndFormat_three_segments:
  assumes "signAndFormat env t pem = (Inr s, m)"
  shows "(\<exists>hdr pl sg.
            json_Encode_header env (Header (tok m)) = Inr hdr \<and>
            json_Encode_payload env (Payload t) = Inr pl \<and>
            ((\<exists>ek. ecdsa_SignASN1 env ek
                     (sha256_Sum env (bytes_of_string (rawurl_encode hdr @ ''.'' @ rawurl_encode pl))) = Inr sg) \<or>
             (\<exists>rk. rsa_SignPKCS1v15 env rk
                     (sha256_Sum env (bytes_of_string (rawurl_encode hdr @ ''.'' @ rawurl_encode pl))) = Inr sg)) \<and>
            split_dot s = [rawurl_encode hdr, rawurl_encode pl, rawurl_encode sg]) \<and>
         length (split_dot s) = 3 \<and>
         set s \<subseteq> set encodeURL \<union> {CHR ''.''} \<and>
         CHR ''='' \<notin> set s"
proof -
  from signAndFormat_cases [OF assms] obtain der k t' k' where
    sw: "sign_with_key env t k = (Inr s, t', k')" and m: "tok m = t'"
    by auto
  from sign_with_key_Inr [OF sw] obtain pl hdr sg where
    pl: "json_Encode_payload env (Payload t) = Inr pl" and
    hdr: "json_Encode_header env (Header t') = Inr hdr" and
    s: "s = rawurl_encode hdr @ ''.'' @ rawurl_encode pl @ ''.'' @ rawurl_encode sg" and
    sg: "(\<exists>ek. ecdsa_SignASN1 env ek
                (sha256_Sum env (bytes_of_string (rawurl_encode hdr @ ''.'' @ rawurl_encode pl))) = Inr sg) \<or>
         (\<exists>rk. rsa_SignPKCS1v15 env rk
                (sha256_Sum env (bytes_of_string (rawurl_encode hdr @ ''.'' @ rawurl_encode pl))) = Inr sg)"
    by blast
  have split: "split_dot s = [rawurl_encode hdr, rawurl_encode pl, rawurl_encode sg]"
    unfolding s by (rule split_dot_three) (rule rawurl_encode_no_dot)+
  have chars: "set s \<subseteq> set encodeURL \<union> {CHR ''.''}"
    unfolding s using rawurl_encode_alphabet [of hdr] rawurl_encode_alphabet [of pl]
      rawurl_encode_alphabet [of sg] by auto
  have nopad: "CHR ''='' \<notin> set s"
    using chars pad_not_in_alphabet by auto
  have "\<exists>hdr pl sg.
          json_Encode_header env (Header (tok m)) = Inr hdr \<and>
          json_Encode_payload env (Payload t) = Inr pl \<and>
          ((\<exists>ek. ecdsa_SignASN1 env ek
                   (sha256_Sum env (bytes_of_string (rawurl_encode hdr @ ''.'' @ rawurl_encode pl))) = Inr sg) \<or>
           (\<exists>rk. rsa_SignPKCS1v15 env rk
                   (sha256_Sum env (bytes_of_string (rawurl_encode hdr @ ''.'' @ rawurl_encode pl))) = Inr sg)) \<and>
          split_dot s = [rawurl_encode hdr, rawurl_encode pl, rawurl_encode sg]"
    using pl hdr sg split m by (intro exI [of _ hdr] exI [of _ pl] exI [of _ sg]) simp
  moreover have "length (split_dot s) = 3"
    by (simp add: split)
  ultimately show ?thesis
    using chars nopad by (intro conjI)
qed

theorem signAndFormat_three_segments_witness:
  "signAndFormat demo_env (demo_token False) demo_rsa_pem =
     (Inr demo_rs256_jwt,
      \<lparr>tok = \<lparr>Header = \<lparr>Alg = ''RS256'', Typ = ''JWT''\<rparr>, Payload = demo_payload,
               shouldCleanKey = False\<rparr>,
       pemBuf = [45, 2, 1, 247, 3, 7, 13, 19, 1, 7, 11],
       blockBytes = Some [0, 0, 0, 0, 0, 0, 0, 0, 0, 0],
       parsedKey = Some (RSAKey \<lparr>rsaN = 0, rsaE = 3, rsaD = 0, rsaPrimes = [13, 19],
                                  rsaDp = 1, rsaDq = 7, rsaQinv = 11\<rparr>)\<rparr>) \<and>
   length (split_dot demo_rs256_jwt) = 3 \<and>
   CHR ''='' \<notin> set demo_rs256_jwt"
proof (intro conjI)
  show "length (split_dot demo_rs256_jwt) = 3"
    using signAndFormat_three_segments [OF demo_rsa_run] by (elim conjE)
  show "CHR ''='' \<notin> set demo_rs256_jwt"
    using signAndFormat_three_segments [OF demo_rsa_run] by (elim conjE)
qed (rule demo_rsa_run)

lemma sign_with_key_ec:
  "sign_with_key env t (ECDSAKey ek) = (res, t', k') \<Longrightarrow>
     (\<forall>s. res = Inr s \<longleftrightarrow> spec_es256_token env t ek = Some s) \<and>
     (\<forall>s. res = Inr s \<longrightarrow> Alg (Header t') = ''ES256'')"
  by (auto simp: sign_with_key_def spec_es256_token_def spec_compact_token_def Let_def es256_def
           split: sum.splits)

lemma sign_with_key_rsa:
  "sign_with_key env t (RSAKey rk) = (res, t', k') \<Longrightarrow>
     (\<forall>s. res = Inr s \<longleftrightarrow> spec_rs256_token env t rk = Some s) \<and>
     (\<forall>s. res = Inr s \<longrightarrow> Alg (Header t') = ''RS256'')"
  by (auto simp: sign_with_key_def spec_rs256_token_def spec_compact_token_def Let_def rs256_def
           split: sum.splits)

lemma sign_with_key_other:
  "sign_with_key env t (OtherKey bs) = (res, t', k') \<Longrightarrow> isl res"
  by (auto simp: sign_with_key_def Let_def split: sum.splits)


lemma signAndFormat_parsed:
  assumes "signAndFormat env t pem = (res, m)" "pem_Decode env pem = Some der"
    "parse_key env der = Some k"
  shows "\<exists>t' k'. sign_with_key env t k = (res, t', k') \<and> tok m = t' \<and> parsedKey m = Some k'"
  using assms by (auto simp: signAndFormat_def split: prod.splits)

section \<open>Key type and algorithm\<close>

text \<open>
  C2. \<open>signAndFormat\<close> fails with the PEM-format error when the input is not a
  PEM block. Otherwise the block's bytes are tried as an EC private key, then as a
  PKCS#1 RSA key, then as PKCS#8, and the first that parses decides: with an EC key
  the call returns a token exactly when the ES256 token of the spec exists, and
  returns that token, with header algorithm ES256 and the ECDSA signature; with an
  RSA key likewise RS256 and the PKCS#1 v1.5 signature; when none parses the call
  fails with the key-type error.
\<close>

theorem signAndFormat_key_type:
  assumes "signAndFormat env t pem = (res, m)"
  shows
    "(pem_Decode env pem = None \<longrightarrow>
        res = Inl ''wallet: signAndFormat: private key must be in PEM format.'') \<and>
     (\<forall>der. pem_Decode env pem = Some der \<longrightarrow>
        (\<forall>ek. x509_ParseECPrivateKey env der = Some ek \<longrightarrow>
           (\<forall>s. res = Inr s \<longleftrightarrow> spec_es256_token env t ek = Some s) \<and>
           (\<forall>s. res = Inr s \<longrightarrow> Alg (Header (tok m)) = ''ES256'')) \<and>
        (\<forall>rk. x509_ParseECPrivateKey env der = None \<and>
              x509_ParsePKCS1PrivateKey env der = Some rk \<longrightarrow>
           (\<forall>s. res = Inr s \<longleftrightarrow> spec_rs256_token env t rk = Some s) \<and>
           (\<forall>s. res = Inr s \<longrightarrow> Alg (Header (tok m)) = ''RS256'')) \<and>
        (\<forall>ek. x509_ParseECPrivateKey env der = None \<and>
              x509_ParsePKCS1PrivateKey env der = None \<and>
              x509_ParsePKCS8PrivateKey env der = Some (ECDSAKey ek) \<longrightarrow>
           (\<forall>s. res = Inr s \<longleftrightarrow> spec_es256_token env t ek = Some s) \<and>
           (\<forall>s. res = Inr s \<longrightarrow> Alg (Header (tok m)) = ''ES256'')) \<and>
        (\<forall>rk. x509_ParseECPrivateKey env der = None \<and>
              x509_ParsePKCS1PrivateKey env der = None \<and>
              x509_ParsePKCS8PrivateKey env der = Some (RSAKey rk) \<longrightarrow>
           (\<forall>s. res = Inr s \<longleftrightarrow> spec_rs256_token env t rk = Some s) \<and>
           (\<forall>s. res = Inr s \<longrightarrow> Alg (Header (tok m)) = ''RS256'')) \<and>
        (x509_ParseECPrivateKey env der = None \<and>
         x509_ParsePKCS1PrivateKey env der = None \<and>
         x509_ParsePKCS8PrivateKey env der = None \<longrightarrow>
           res = Inl ''wallet: signAndFormat: unable to deduce private key type. Valid key would either be EC or RSA.''))"
proof -
  have ec: "(\<forall>s. res = Inr s \<longleftrightarrow> spec_es256_token env t ek = Some s) \<and>
            (\<forall>s. res = Inr s \<longrightarrow> Alg (Header (tok m)) = ''ES256'')"
    if "pem_Decode env pem = Some der" "parse_key env der = Some (ECDSAKey ek)" for der ek
  proof -
    from signAndFormat_parsed [OF assms that] obtain t' k' where
      "sign_with_key env t (ECDSAKey ek) = (res, t', k')" "tok m = t'" by blast
    with sign_with_key_ec [of env t ek res t' k'] show ?thesis by simp
  qed
  have rsa: "(\<forall>s. res = Inr s \<longleftrightarrow> spec_rs256_token env t rk = Some s) \<and>
             (\<forall>s. res = Inr s \<longrightarrow> Alg (Header (tok m)) = ''RS256'')"
    if "pem_Decode env pem = Some der" "parse_key env der = Some (RSAKey rk)" for der rk
  proof -
    from signAndFormat_parsed [OF assms that] obtain t' k' where
      "sign_with_key env t (RSAKey rk) = (res, t', k')" "tok m = t'" by blast
    with sign_with_key_rsa [of env t rk res t' k'] show ?thesis by simp
  qed
  have f1: "pem_Decode env pem = None \<longrightarrow>
              res = Inl ''wallet: signAndFormat: private key must be in PEM format.''"
    using signAndFormat_cases [OF assms] by auto
  have f2: "\<forall>ek. x509_ParseECPrivateKey env der = Some ek \<longrightarrow>
              (\<forall>s. res = Inr s \<longleftrightarrow> spec_es256_token env t ek = Some s) \<and>
              (\<forall>s. res = Inr s \<longrightarrow> Alg (Header (tok m)) = ''ES256'')"
    if d: "pem_Decode env pem = Some der" for der
    using ec [OF d] by (simp add: parse_key_def)
  have f3: "\<forall>rk. x509_ParseECPrivateKey env der = None \<and>
                 x509_ParsePKCS1PrivateKey env der = Some rk \<longrightarrow>
              (\<forall>s. res = Inr s \<longleftrightarrow> spec_rs256_token env t rk = Some s) \<and>
              (\<forall>s. res = Inr s \<longrightarrow> Alg (Header (tok m)) = ''RS256'')"
    if d: "pem_Decode env pem = Some der" for der
    using rsa [OF d] by (simp add: parse_key_def)
  have f4: "\<forall>ek. x509_ParseECPrivateKey env der = None \<and>
                 x509_ParsePKCS1PrivateKey env der = None \<and>
                 x509_ParsePKCS8PrivateKey env der = Some (ECDSAKey ek) \<longrightarrow>
              (\<forall>s. res = Inr s \<longleftrightarrow> spec_es256_token env t ek = Some s) \<and>
              (\<forall>s. res = Inr s \<longrightarrow> Alg (Header (tok m)) = ''ES256'')"
    if d: "pem_Decode env pem = Some der" for der
    using ec [OF d] by (simp add: parse_key_def)
  have f5: "\<forall>rk. x509_ParseECPrivateKey env der = None \<and>
                 x509_ParsePKCS1PrivateKey env der = None \<and>
                 x509_ParsePKCS8PrivateKey env der = Some (RSAKey rk) \<longrightarrow>
              (\<forall>s. res = Inr s \<longleftrightarrow> spec_rs256_token env t rk = Some s) \<and>
              (\<forall>s. res = Inr s \<longrightarrow> Alg (Header (tok m)) = ''RS256'')"
    if d: "pem_Decode env pem = Some der" for der
    using rsa [OF d] by (simp add: parse_key_def)
  have f6: "x509_ParseECPrivateKey env der = None \<and>
            x509_ParsePKCS1PrivateKey env der = None \<and>
            x509_ParsePKCS8PrivateKey env der = None \<longrightarrow>
              res = Inl ''wallet: signAndFormat: unable to deduce private key type. Valid key would either be EC or RSA.''"
    if d: "pem_Decode env pem = Some der" for der
    using signAndFormat_cases [OF assms] d by (auto simp: parse_key_def)
  show ?thesis
  proof (rule conjI [OF f1], rule allI, rule impI)
    fix der
    assume d: "pem_Decode env pem = Some der"
    from f2 [OF d] f3 [OF d] f4 [OF d] f5 [OF d] f6 [OF d]
    show "(\<forall>ek. x509_ParseECPrivateKey env der = Some ek \<longrightarrow>
             (\<forall>s. res = Inr s \<longleftrightarrow> spec_es256_token env t ek = Some s) \<and>
             (\<forall>s. res = Inr s \<longrightarrow> Alg (Header (tok m)) = ''ES256'')) \<and>
          (\<forall>rk. x509_ParseECPrivateKey env der = None \<and>
                x509_ParsePKCS1PrivateKey env der = Some rk \<longrightarrow>
             (\<forall>s. res = Inr s \<longleftrightarrow> spec_rs256_token env t rk = Some s) \<and>
             (\<forall>s. res = Inr s \<longrightarrow> Alg (Header (tok m)) = ''RS256'')) \<and>
          (\<forall>ek. x509_ParseECPrivateKey env der = None \<and>
                x509_ParsePKCS1PrivateKey env der = None \<and>
                x509_ParsePKCS8PrivateKey env der = Some (ECDSAKey ek) \<longrightarrow>
             (\<forall>s. res = Inr s \<longleftrightarrow> spec_es256_token env t ek = Some s) \<and>
             (\<forall>s. res = Inr s \<longrightarrow> Alg (Header (tok m)) = ''ES256'')) \<and>
          (\<forall>rk. x509_ParseECPrivateKey env der = None \<and>
                x509_ParsePKCS1PrivateKey env der = None \<and>
                x509_ParsePKCS8PrivateKey env der = Some (RSAKey rk) \<longrightarrow>
             (\<forall>s. res = Inr s \<longleftrightarrow> spec_rs256_token env t rk = Some s) \<and>
             (\<forall>s. res = Inr s \<longrightarrow> Alg (Header (tok m)) = ''RS256'')) \<and>
          (x509_ParseECPrivateKey env der = None \<and>
           x509_ParsePKCS1PrivateKey env der = None \<and>
           x509_ParsePKCS8PrivateKey env der = None \<longrightarrow>
             res = Inl ''wallet: signAndFormat: unable to deduce private key type. Valid key would either be EC or RSA.'')"
      by (intro conjI)
  qed
qed


theorem signAndFormat_key_type_witness:
  "signAndFormat demo_env (demo_token True) demo_ec_pem =
     (Inr demo_es256_jwt,
      \<lparr>tok = \<lparr>Header = \<lparr>Alg = ''ES256'', Typ = ''JWT''\<rparr>, Payload = demo_payload,
               shouldCleanKey = True\<rparr>,
       pemBuf = [0, 0, 0, 0, 0],
       blockBytes = Some [0, 0, 0, 0],
       parsedKey = Some (ECDSAKey \<lparr>ecD = 0, ecX = 0, ecY = 0\<rparr>)\<rparr>) \<and>
   pem_Decode demo_env demo_ec_pem = Some [1, 7, 3, 5] \<and>
   x509_ParseECPrivateKey demo_env [1, 7, 3, 5] = Some \<lparr>ecD = 7, ecX = 3, ecY = 5\<rparr> \<and>
   spec_es256_token demo_env (demo_token True) \<lparr>ecD = 7, ecX = 3, ecY = 5\<rparr> = Some demo_es256_jwt"
proof -
  have d: "pem_Decode demo_env demo_ec_pem = Some [1, 7, 3, 5]"
    by (simp add: demo_env_def demo_pem_Decode_def demo_ec_pem_def)
  have p: "x509_ParseECPrivateKey demo_env [1, 7, 3, 5] = Some \<lparr>ecD = 7, ecX = 3, ecY = 5\<rparr>"
    by (simp add: demo_env_def demo_ParseEC_def)
  note signAndFormat_key_type [OF demo_ec_run, THEN conjunct2, rule_format, OF d,
    THEN conjunct1, rule_format, OF p, THEN conjunct1, rule_format]
  then have "spec_es256_token demo_env (demo_token True) \<lparr>ecD = 7, ecX = 3, ecY = 5\<rparr> = Some demo_es256_jwt"
    by (rule iffD1) (rule refl)
  with d p demo_ec_run show ?thesis
    by (intro conjI)
qed

section \<open>Erasure of key material\<close>




text \<open>
  C10. When the input decodes as a PEM block, the block's bytes hold only zeros
  after \<open>signAndFormat\<close>, whatever it returns and whatever \<open>shouldCleanKey\<close>
  is. Without \<open>shouldCleanKey\<close> the PEM buffer is left as it was, so a later call
  with the same buffer does what a call with the original bytes does.
\<close>

theorem signAndFormat_block_erased:
  assumes "pem_Decode env pem = Some der" and "signAndFormat env t pem = (res, m)"
  shows "blockBytes m = Some (replicate (length der) 0) \<and>
         (\<not> shouldCleanKey t \<longrightarrow>
            pemBuf m = pem \<and>
            (\<forall>t2. fst (signAndFormat env t2 (pemBuf m)) = fst (signAndFormat env t2 pem)))"
  using signAndFormat_cases [OF assms(2)] assms(1)
  by (auto simp: clean_pem_def zeroed_replicate)

theorem signAndFormat_block_erased_witness:
  "pem_Decode demo_env demo_rsa_pem = Some [2, 1, 247, 3, 7, 13, 19, 1, 7, 11] \<and>
   \<not> shouldCleanKey (demo_token False) \<and>
   blockBytes (snd (signAndFormat demo_env (demo_token False) demo_rsa_pem)) =
     Some [0, 0, 0, 0, 0, 0, 0, 0, 0, 0] \<and>
   pemBuf (snd (signAndFormat demo_env (demo_token False) demo_rsa_pem)) = demo_rsa_pem"
proof -
  have d: "pem_Decode demo_env demo_rsa_pem = Some [2, 1, 247, 3, 7, 13, 19, 1, 7, 11]"
    by (simp add: demo_env_def demo_pem_Decode_def demo_rsa_pem_def)
  have c: "\<not> shouldCleanKey (demo_token False)"
    by (simp add: demo_token_def)
  from signAndFormat_block_erased [OF d demo_rsa_run] c d show ?thesis
    by (simp add: demo_rsa_run)
qed

end
